theory Spec2Isabelle
  imports Complex_Main
begin

section \<open>Data model of the portfolio store\<close>

text \<open>
  The store of \<^verbatim>\<open>portfolioStore.ts\<close> holds three arrays of plain objects. Each interface
  is a record here; the fields carry a prefix because several interfaces share field names
  (\<^verbatim>\<open>id\<close>, \<^verbatim>\<open>type\<close>, \<^verbatim>\<open>category\<close>).

  A JavaScript \<^verbatim>\<open>number\<close> that holds a money amount is modelled as a real number: sums are
  exact, and the values \<^verbatim>\<open>NaN\<close> and \<^verbatim>\<open>Infinity\<close> and the rounding of binary floating point
  are outside the model. A time value (milliseconds since the epoch) is an integer.
\<close>

datatype account_type = Checking | Savings | Investment | Credit

datatype transaction_type = Income | Expense | Transfer

datatype budget_period = Monthly | Weekly | Yearly

text \<open>
  The value found in the \<^verbatim>\<open>date\<close> property of a transaction at run time. The interface
  declares a \<^verbatim>\<open>Date\<close>; \<open>DateObj t\<close> is the \<^verbatim>\<open>Date\<close> object with time value \<open>t\<close>. A state read
  back from storage holds a string there instead: \<open>IsoString t\<close> stands for the text
  that \<^verbatim>\<open>Date.prototype.toJSON\<close> produces for the time value \<open>t\<close>
  (such as \<^verbatim>\<open>"2024-01-15T00:00:00.000Z"\<close>). A \<^verbatim>\<open>Date\<close> without a time value (Invalid Date) is
  outside the model.
\<close>

datatype date_value = DateObj int | IsoString int

record account =
  a_id :: string
  a_name :: string
  a_type :: account_type
  a_balance :: real
  a_currency :: string

record transaction =
  t_id :: string
  t_accountId :: string
  t_amount :: real
  t_description :: string
  t_category :: string
  t_date :: date_value
  t_type :: transaction_type

record budget =
  b_id :: string
  b_category :: string
  b_limit :: real
  b_spent :: real
  b_period :: budget_period

text \<open>\<^verbatim>\<open>Omit<Account, 'id'>\<close> and its two siblings: the argument of an add operation.\<close>

record account_input =
  ai_name :: string
  ai_type :: account_type
  ai_balance :: real
  ai_currency :: string

record transaction_input =
  ti_accountId :: string
  ti_amount :: real
  ti_description :: string
  ti_category :: string
  ti_date :: date_value
  ti_type :: transaction_type

record budget_input =
  bi_category :: string
  bi_limit :: real
  bi_spent :: real
  bi_period :: budget_period

text \<open>
  \<^verbatim>\<open>Partial<Account>\<close> and its two siblings: the argument of an update operation. A property
  that is absent from the object is \<open>None\<close>.
\<close>

record account_updates =
  ua_id :: "string option"
  ua_name :: "string option"
  ua_type :: "account_type option"
  ua_balance :: "real option"
  ua_currency :: "string option"

record transaction_updates =
  ut_id :: "string option"
  ut_accountId :: "string option"
  ut_amount :: "real option"
  ut_description :: "string option"
  ut_category :: "string option"
  ut_date :: "date_value option"
  ut_type :: "transaction_type option"

record budget_updates =
  ub_id :: "string option"
  ub_category :: "string option"
  ub_limit :: "real option"
  ub_spent :: "real option"
  ub_period :: "budget_period option"

text \<open>The data part of \<^verbatim>\<open>PortfolioState\<close>; the actions are the functions below.\<close>

record portfolioState =
  accounts :: "account list"
  transactions :: "transaction list"
  budgets :: "budget list"

section \<open>Object spread\<close>

text \<open>
  \<^verbatim>\<open>{ ...x, id: crypto.randomUUID() }\<close> copies the properties of \<open>x\<close> and sets \<^verbatim>\<open>id\<close>. The
  identifier that \<^verbatim>\<open>crypto.randomUUID()\<close> returns is an argument of the model.
\<close>

definition with_id_account :: "account_input \<Rightarrow> string \<Rightarrow> account" where
  "with_id_account x newId =
     \<lparr>a_id = newId, a_name = ai_name x, a_type = ai_type x,
      a_balance = ai_balance x, a_currency = ai_currency x\<rparr>"

definition with_id_transaction :: "transaction_input \<Rightarrow> string \<Rightarrow> transaction" where
  "with_id_transaction x newId =
     \<lparr>t_id = newId, t_accountId = ti_accountId x, t_amount = ti_amount x,
      t_description = ti_description x, t_category = ti_category x,
      t_date = ti_date x, t_type = ti_type x\<rparr>"

definition with_id_budget :: "budget_input \<Rightarrow> string \<Rightarrow> budget" where
  "with_id_budget x newId =
     \<lparr>b_id = newId, b_category = bi_category x, b_limit = bi_limit x,
      b_spent = bi_spent x, b_period = bi_period x\<rparr>"

text \<open>
  \<^verbatim>\<open>{ ...record, ...updates }\<close>: every property present in \<open>updates\<close> replaces the one of
  the record, whichever property it is.
\<close>

definition override :: "'a \<Rightarrow> 'a option \<Rightarrow> 'a" where
  "override old new = (case new of None \<Rightarrow> old | Some v \<Rightarrow> v)"

definition spread_account :: "account \<Rightarrow> account_updates \<Rightarrow> account" where
  "spread_account a u =
     \<lparr>a_id = override (a_id a) (ua_id u), a_name = override (a_name a) (ua_name u),
      a_type = override (a_type a) (ua_type u),
      a_balance = override (a_balance a) (ua_balance u),
      a_currency = override (a_currency a) (ua_currency u)\<rparr>"

definition spread_transaction :: "transaction \<Rightarrow> transaction_updates \<Rightarrow> transaction" where
  "spread_transaction t u =
     \<lparr>t_id = override (t_id t) (ut_id u),
      t_accountId = override (t_accountId t) (ut_accountId u),
      t_amount = override (t_amount t) (ut_amount u),
      t_description = override (t_description t) (ut_description u),
      t_category = override (t_category t) (ut_category u),
      t_date = override (t_date t) (ut_date u),
      t_type = override (t_type t) (ut_type u)\<rparr>"

definition spread_budget :: "budget \<Rightarrow> budget_updates \<Rightarrow> budget" where
  "spread_budget b u =
     \<lparr>b_id = override (b_id b) (ub_id u),
      b_category = override (b_category b) (ub_category u),
      b_limit = override (b_limit b) (ub_limit u),
      b_spent = override (b_spent b) (ub_spent u),
      b_period = override (b_period b) (ub_period u)\<rparr>"

section \<open>Actions\<close>

text \<open>
  Each action calls \<^verbatim>\<open>set\<close> with a function of the state that returns the collections to
  replace; \<^verbatim>\<open>set\<close> merges them into the state. No action throws.
\<close>

definition addAccount :: "string \<Rightarrow> account_input \<Rightarrow> portfolioState \<Rightarrow> portfolioState" where
  "addAccount newId account state =
     state\<lparr>accounts := accounts state @ [with_id_account account newId]\<rparr>"

definition updateAccount :: "string \<Rightarrow> account_updates \<Rightarrow> portfolioState \<Rightarrow> portfolioState" where
  "updateAccount i updates state =
     state\<lparr>accounts :=
       map (\<lambda>account. if a_id account = i then spread_account account updates else account)
         (accounts state)\<rparr>"

definition deleteAccount :: "string \<Rightarrow> portfolioState \<Rightarrow> portfolioState" where
  "deleteAccount i state =
     state\<lparr>accounts := filter (\<lambda>account. a_id account \<noteq> i) (accounts state)\<rparr>"

definition addTransaction ::
  "string \<Rightarrow> transaction_input \<Rightarrow> portfolioState \<Rightarrow> portfolioState" where
  "addTransaction newId transaction state =
     (let newTransaction = with_id_transaction transaction newId;
          updatedAccounts =
            map (\<lambda>account.
                   if a_id account = ti_accountId transaction
                   then account\<lparr>a_balance := a_balance account + ti_amount transaction\<rparr>
                   else account)
              (accounts state)
      in state\<lparr>transactions := transactions state @ [newTransaction],
               accounts := updatedAccounts\<rparr>)"

definition updateTransaction ::
  "string \<Rightarrow> transaction_updates \<Rightarrow> portfolioState \<Rightarrow> portfolioState" where
  "updateTransaction i updates state =
     state\<lparr>transactions :=
       map (\<lambda>transaction.
              if t_id transaction = i then spread_transaction transaction updates
              else transaction)
         (transactions state)\<rparr>"

definition deleteTransaction :: "string \<Rightarrow> portfolioState \<Rightarrow> portfolioState" where
  "deleteTransaction i state =
     state\<lparr>transactions := filter (\<lambda>transaction. t_id transaction \<noteq> i) (transactions state)\<rparr>"

definition addBudget :: "string \<Rightarrow> budget_input \<Rightarrow> portfolioState \<Rightarrow> portfolioState" where
  "addBudget newId budget state =
     state\<lparr>budgets := budgets state @ [with_id_budget budget newId]\<rparr>"

definition updateBudget :: "string \<Rightarrow> budget_updates \<Rightarrow> portfolioState \<Rightarrow> portfolioState" where
  "updateBudget i updates state =
     state\<lparr>budgets :=
       map (\<lambda>budget. if b_id budget = i then spread_budget budget updates else budget)
         (budgets state)\<rparr>"

definition deleteBudget :: "string \<Rightarrow> portfolioState \<Rightarrow> portfolioState" where
  "deleteBudget i state =
     state\<lparr>budgets := filter (\<lambda>budget. b_id budget \<noteq> i) (budgets state)\<rparr>"

section \<open>Queries on accounts and transactions\<close>

text \<open>\<^verbatim>\<open>accounts.reduce((total, account) => total + account.balance, 0)\<close>\<close>

definition getTotalBalance :: "portfolioState \<Rightarrow> real" where
  "getTotalBalance state = foldl (\<lambda>total account. total + a_balance account) 0 (accounts state)"

text \<open>
  \<^verbatim>\<open>account?.balance || 0\<close>: \<^verbatim>\<open>find\<close> gives the first match or \<^verbatim>\<open>undefined\<close>; \<^verbatim>\<open>||\<close> takes its
  right operand when the left one is \<^verbatim>\<open>undefined\<close> or zero.
\<close>

definition getAccountBalance :: "portfolioState \<Rightarrow> string \<Rightarrow> real" where
  "getAccountBalance state accountId =
     (case find (\<lambda>acc. a_id acc = accountId) (accounts state) of
        None \<Rightarrow> 0
      | Some account \<Rightarrow> (if a_balance account = 0 then 0 else a_balance account))"

definition getTransactionsByAccount :: "portfolioState \<Rightarrow> string \<Rightarrow> transaction list" where
  "getTransactionsByAccount state accountId =
     filter (\<lambda>transaction. t_accountId transaction = accountId) (transactions state)"

section \<open>Dates\<close>

text \<open>
  The \<^verbatim>\<open>Date\<close> methods that \<^verbatim>\<open>getCategorySpending\<close> calls, after the abstract operations
  of the ECMAScript specification (Day, TimeWithinDay, DayFromYear, YearFromTime,
  MonthFromTime, DateFromTime, MakeDay, MakeDate, LocalTime, UTC). The range limit of time
  values (TimeClip) is outside the model.
\<close>

definition msPerDay :: int where
  "msPerDay = 86400000"

definition Day :: "int \<Rightarrow> int" where
  "Day t = t div msPerDay"

definition TimeWithinDay :: "int \<Rightarrow> int" where
  "TimeWithinDay t = t mod msPerDay"

definition DaysInYear :: "int \<Rightarrow> int" where
  "DaysInYear y =
     (if y mod 4 \<noteq> 0 then 365 else if y mod 100 \<noteq> 0 then 366
      else if y mod 400 \<noteq> 0 then 365 else 366)"

definition DayFromYear :: "int \<Rightarrow> int" where
  "DayFromYear y =
     365 * (y - 1970) + (y - 1969) div 4 - (y - 1901) div 100 + (y - 1601) div 400"

text \<open>
  YearFromTime is the largest year whose first day is not after \<open>t\<close>. It is computed from an
  estimate by the mean length of a year, which is off by one year at most.
\<close>

definition YearFromTime :: "int \<Rightarrow> int" where
  "YearFromTime t =
     (let d = Day t; y = 1970 + (400 * d) div 146097
      in if DayFromYear (y + 1) \<le> d then y + 1
         else if d < DayFromYear y then y - 1 else y)"

definition leapDays :: "int \<Rightarrow> int" where
  "leapDays y = (if DaysInYear y = 366 then 1 else 0)"

definition InLeapYear :: "int \<Rightarrow> int" where
  "InLeapYear t = leapDays (YearFromTime t)"

definition DayWithinYear :: "int \<Rightarrow> int" where
  "DayWithinYear t = Day t - DayFromYear (YearFromTime t)"

text \<open>The number of days of the year before month \<open>m\<close> (0 is January).\<close>

definition daysBeforeMonth :: "int \<Rightarrow> int \<Rightarrow> int" where
  "daysBeforeMonth m leap =
     (if m = 0 then 0 else if m = 1 then 31 else if m = 2 then 59 + leap
      else if m = 3 then 90 + leap else if m = 4 then 120 + leap
      else if m = 5 then 151 + leap else if m = 6 then 181 + leap
      else if m = 7 then 212 + leap else if m = 8 then 243 + leap
      else if m = 9 then 273 + leap else if m = 10 then 304 + leap
      else 334 + leap)"

definition MonthFromTime :: "int \<Rightarrow> int" where
  "MonthFromTime t =
     (let d = DayWithinYear t; leap = InLeapYear t
      in if d < 31 then 0 else if d < 59 + leap then 1 else if d < 90 + leap then 2
         else if d < 120 + leap then 3 else if d < 151 + leap then 4
         else if d < 181 + leap then 5 else if d < 212 + leap then 6
         else if d < 243 + leap then 7 else if d < 273 + leap then 8
         else if d < 304 + leap then 9 else if d < 334 + leap then 10 else 11)"

definition DateFromTime :: "int \<Rightarrow> int" where
  "DateFromTime t = DayWithinYear t - daysBeforeMonth (MonthFromTime t) (InLeapYear t) + 1"

text \<open>
  MakeDay accepts any month and any day of the month: months outside 0..11 carry into the
  year, and the day number is added to the first day of the month without a check.
\<close>

definition MakeDay :: "int \<Rightarrow> int \<Rightarrow> int \<Rightarrow> int" where
  "MakeDay year month date =
     (let ym = year + month div 12; mn = month mod 12
      in DayFromYear ym + daysBeforeMonth mn (leapDays ym) + date - 1)"

definition MakeDate :: "int \<Rightarrow> int \<Rightarrow> int" where
  "MakeDate day time = day * msPerDay + time"

text \<open>
  The time zone of the host, as the operation LocalTZA of the ECMAScript specification
  gives it: the offset of local time from UTC in milliseconds, for a time value
  (\<open>tzaOfUTC\<close>) and for a local time (\<open>tzaOfLocal\<close>). The offset depends on the time, as
  it does where clocks are set forward and back.
\<close>

record timeZone =
  tzaOfUTC :: "int \<Rightarrow> int"
  tzaOfLocal :: "int \<Rightarrow> int"

definition LocalTime :: "timeZone \<Rightarrow> int \<Rightarrow> int" where
  "LocalTime zone t = t + tzaOfUTC zone t"

definition UTC :: "timeZone \<Rightarrow> int \<Rightarrow> int" where
  "UTC zone t = t - tzaOfLocal zone t"

definition getDate :: "timeZone \<Rightarrow> int \<Rightarrow> int" where
  "getDate zone t = DateFromTime (LocalTime zone t)"

definition getMonth :: "timeZone \<Rightarrow> int \<Rightarrow> int" where
  "getMonth zone t = MonthFromTime (LocalTime zone t)"

definition getFullYear :: "timeZone \<Rightarrow> int \<Rightarrow> int" where
  "getFullYear zone t = YearFromTime (LocalTime zone t)"

definition setDate :: "timeZone \<Rightarrow> int \<Rightarrow> int \<Rightarrow> int" where
  "setDate zone t dt =
     (let lt = LocalTime zone t
      in UTC zone (MakeDate (MakeDay (YearFromTime lt) (MonthFromTime lt) dt) (TimeWithinDay lt)))"

definition setMonth :: "timeZone \<Rightarrow> int \<Rightarrow> int \<Rightarrow> int" where
  "setMonth zone t m =
     (let lt = LocalTime zone t
      in UTC zone (MakeDate (MakeDay (YearFromTime lt) m (DateFromTime lt)) (TimeWithinDay lt)))"

definition setFullYear :: "timeZone \<Rightarrow> int \<Rightarrow> int \<Rightarrow> int" where
  "setFullYear zone t y =
     (let lt = LocalTime zone t
      in UTC zone (MakeDate (MakeDay y (MonthFromTime lt) (DateFromTime lt)) (TimeWithinDay lt)))"

text \<open>\<^verbatim>\<open>new Date(year, month, day)\<close>: midnight of that day in local time.\<close>

definition newDate :: "timeZone \<Rightarrow> int \<Rightarrow> int \<Rightarrow> int \<Rightarrow> date_value" where
  "newDate zone year month date = DateObj (UTC zone (MakeDate (MakeDay year month date) 0))"

section \<open>Category spending\<close>

text \<open>
  \<^verbatim>\<open>getCategorySpending\<close> reads the clock twice: \<^verbatim>\<open>now\<close> and \<^verbatim>\<open>startDate\<close> are two
  \<^verbatim>\<open>new Date()\<close> objects. The two time values are the arguments \<open>now\<close> and \<open>startDate\<close> of
  the model. The \<^verbatim>\<open>switch\<close> moves \<^verbatim>\<open>startDate\<close> by a field read from \<^verbatim>\<open>now\<close>.
\<close>

definition windowStart :: "timeZone \<Rightarrow> int \<Rightarrow> int \<Rightarrow> string \<Rightarrow> int" where
  "windowStart zone now startDate period =
     (if period = ''week'' then setDate zone startDate (getDate zone now - 7)
      else if period = ''year'' then setFullYear zone startDate (getFullYear zone now - 1)
      else setMonth zone startDate (getMonth zone now - 1))"

text \<open>
  \<^verbatim>\<open>transaction.date >= startDate\<close>, where \<^verbatim>\<open>startDate\<close> is a \<^verbatim>\<open>Date\<close>. Two dates compare by
  their time values. A string on the left is converted to a number; the text of an ISO
  timestamp converts to \<^verbatim>\<open>NaN\<close>, and every comparison with \<^verbatim>\<open>NaN\<close> is false.
\<close>

fun date_ge :: "date_value \<Rightarrow> int \<Rightarrow> bool" where
  "date_ge (DateObj t) start = (start \<le> t)"
| "date_ge (IsoString t) start = False"

text \<open>The \<^verbatim>\<open>filter\<close> stage of the chain, then the \<^verbatim>\<open>reduce\<close> stage.\<close>

definition spendingFilter :: "string \<Rightarrow> int \<Rightarrow> transaction list \<Rightarrow> transaction list" where
  "spendingFilter category startDate ts =
     filter (\<lambda>transaction.
               t_category transaction = category \<and> t_type transaction = Expense \<and>
               date_ge (t_date transaction) startDate)
       ts"

definition getCategorySpending ::
  "timeZone \<Rightarrow> int \<Rightarrow> int \<Rightarrow> portfolioState \<Rightarrow> string \<Rightarrow> string option \<Rightarrow> real" where
  "getCategorySpending zone now startDate state category periodArg =
     (let period = (case periodArg of None \<Rightarrow> ''month'' | Some p \<Rightarrow> p);
          start = windowStart zone now startDate period
      in foldl (\<lambda>total transaction. total + \<bar>t_amount transaction\<bar>) 0
           (spendingFilter category start (transactions state)))"

section \<open>Persistence\<close>

text \<open>
  The \<^verbatim>\<open>persist\<close> middleware is configured with a storage key and \<^verbatim>\<open>partialize\<close> only: no
  custom storage, no reviver, no merge function and no rehydration hook. Its default
  storage writes \<^verbatim>\<open>JSON.stringify\<close> of the partialized state and reads it back with
  \<^verbatim>\<open>JSON.parse\<close>; the parsed object is merged over the initial state.
\<close>

definition partialize :: "portfolioState \<Rightarrow> portfolioState" where
  "partialize state =
     \<lparr>accounts = accounts state, transactions = transactions state, budgets = budgets state\<rparr>"

text \<open>
  What \<^verbatim>\<open>JSON.parse(JSON.stringify(v))\<close> returns for the value of a \<^verbatim>\<open>date\<close> property: a
  \<^verbatim>\<open>Date\<close> is written through its \<^verbatim>\<open>toJSON\<close> method as a string, and a string is read back
  as a string. Strings and numbers of the other properties come back unchanged.
\<close>

fun json_date :: "date_value \<Rightarrow> date_value" where
  "json_date (DateObj t) = IsoString t"
| "json_date (IsoString t) = IsoString t"

definition json_transaction :: "transaction \<Rightarrow> transaction" where
  "json_transaction t = t\<lparr>t_date := json_date (t_date t)\<rparr>"

definition json_roundtrip :: "portfolioState \<Rightarrow> portfolioState" where
  "json_roundtrip snapshot =
     \<lparr>accounts = accounts snapshot,
      transactions = map json_transaction (transactions snapshot),
      budgets = budgets snapshot\<rparr>"

text \<open>The default merge of the middleware: \<^verbatim>\<open>{ ...currentState, ...persistedState }\<close>.\<close>

definition rehydrate :: "portfolioState \<Rightarrow> portfolioState \<Rightarrow> portfolioState" where
  "rehydrate currentState persistedState =
     currentState\<lparr>accounts := accounts persistedState,
                  transactions := transactions persistedState,
                  budgets := budgets persistedState\<rparr>"

definition persist_then_rehydrate :: "portfolioState \<Rightarrow> portfolioState \<Rightarrow> portfolioState" where
  "persist_then_rehydrate initial state = rehydrate initial (json_roundtrip (partialize state))"

section \<open>Initial state\<close>

definition initialState :: "timeZone \<Rightarrow> portfolioState" where
  "initialState zone =
     \<lparr>accounts =
        [\<lparr>a_id = ''1'', a_name = ''Main Checking'', a_type = Checking,
          a_balance = 5420.50, a_currency = ''USD''\<rparr>,
         \<lparr>a_id = ''2'', a_name = ''Emergency Savings'', a_type = Savings,
          a_balance = 15000.00, a_currency = ''USD''\<rparr>,
         \<lparr>a_id = ''3'', a_name = ''Investment Portfolio'', a_type = Investment,
          a_balance = 32450.75, a_currency = ''USD''\<rparr>],
      transactions =
        [\<lparr>t_id = ''1'', t_accountId = ''1'', t_amount = - 89.50,
          t_description = ''Grocery Store'', t_category = ''Food & Dining'',
          t_date = newDate zone 2024 0 15, t_type = Expense\<rparr>,
         \<lparr>t_id = ''2'', t_accountId = ''1'', t_amount = - 45.00,
          t_description = ''Gas Station'', t_category = ''Transportation'',
          t_date = newDate zone 2024 0 14, t_type = Expense\<rparr>,
         \<lparr>t_id = ''3'', t_accountId = ''1'', t_amount = 3200.00,
          t_description = ''Salary Deposit'', t_category = ''Income'',
          t_date = newDate zone 2024 0 10, t_type = Income\<rparr>],
      budgets =
        [\<lparr>b_id = ''1'', b_category = ''Food & Dining'', b_limit = 500,
          b_spent = 289.50, b_period = Monthly\<rparr>,
         \<lparr>b_id = ''2'', b_category = ''Transportation'', b_limit = 200,
          b_spent = 145.00, b_period = Monthly\<rparr>]\<rparr>"

section \<open>Sequences of calls\<close>

text \<open>A sequence of \<^verbatim>\<open>addAccount\<close> calls, each with the identifier generated for it.\<close>

fun addAccount_calls :: "(string \<times> account_input) list \<Rightarrow> portfolioState \<Rightarrow> portfolioState" where
  "addAccount_calls [] state = state"
| "addAccount_calls ((newId, account) # calls) state =
     addAccount_calls calls (addAccount newId account state)"

section \<open>The window of category spending as the specification words it\<close>

text \<open>
  The calendar in plain terms: the leap-year rule, the lengths of the months (month 0 is
  January), and the local time at which the clock reads a given year, month, day of the
  month and time of day in milliseconds. \<open>DayFromYear\<close> is used as the day number of
  1 January.
\<close>

definition spec_isLeapYear :: "int \<Rightarrow> bool" where
  "spec_isLeapYear y =
     (if y mod 400 = 0 then True else if y mod 100 = 0 then False else y mod 4 = 0)"

definition spec_daysInMonth :: "int \<Rightarrow> int \<Rightarrow> int" where
  "spec_daysInMonth y m =
     (if m = 1 then (if spec_isLeapYear y then 29 else 28)
      else if m = 3 \<or> m = 5 \<or> m = 8 \<or> m = 10 then 30 else 31)"

fun spec_daysBeforeMonth :: "int \<Rightarrow> nat \<Rightarrow> int" where
  "spec_daysBeforeMonth y 0 = 0"
| "spec_daysBeforeMonth y (Suc m) = spec_daysBeforeMonth y m + spec_daysInMonth y (int m)"

definition spec_localTime :: "int \<Rightarrow> int \<Rightarrow> int \<Rightarrow> int \<Rightarrow> int" where
  "spec_localTime y m d timeOfDay =
     (DayFromYear y + spec_daysBeforeMonth y (nat m) + (d - 1)) * (24 * 60 * 60 * 1000)
       + timeOfDay"

definition spec_validReading :: "int \<Rightarrow> int \<Rightarrow> int \<Rightarrow> int \<Rightarrow> bool" where
  "spec_validReading y m d timeOfDay =
     (0 \<le> m \<and> m \<le> 11 \<and> 1 \<le> d \<and> d \<le> spec_daysInMonth y m \<and>
      0 \<le> timeOfDay \<and> timeOfDay < 24 * 60 * 60 * 1000)"

text \<open>
  One calendar year and one calendar month before the local clock reads \<open>y\<close>, \<open>m\<close>, \<open>d\<close> and
  a time of day: the same day of the month and time of day in the earlier year or month,
  and the last day of that month when it has no such day.
\<close>

definition spec_oneYearEarlier :: "int \<Rightarrow> int \<Rightarrow> int \<Rightarrow> int \<Rightarrow> int" where
  "spec_oneYearEarlier y m d timeOfDay =
     spec_localTime (y - 1) m (min d (spec_daysInMonth (y - 1) m)) timeOfDay"

definition spec_oneMonthEarlier :: "int \<Rightarrow> int \<Rightarrow> int \<Rightarrow> int \<Rightarrow> int" where
  "spec_oneMonthEarlier y m d timeOfDay =
     (let y' = (if m = 0 then y - 1 else y); m' = (if m = 0 then 11 else m - 1)
      in spec_localTime y' m' (min d (spec_daysInMonth y' m')) timeOfDay)"

text \<open>
  The start of the window, counted back from the instant \<open>now\<close> at which the local clock
  reads \<open>y\<close>, \<open>m\<close>, \<open>d\<close> and \<open>timeOfDay\<close>: seven days of 24 hours for a week, one calendar year
  for a year, one calendar month otherwise.
\<close>

definition spec_windowStart ::
  "timeZone \<Rightarrow> int \<Rightarrow> int \<Rightarrow> int \<Rightarrow> int \<Rightarrow> int \<Rightarrow> string \<Rightarrow> int" where
  "spec_windowStart zone now y m d timeOfDay period =
     (if period = ''week'' then now - 7 * 24 * 60 * 60 * 1000
      else if period = ''year'' then UTC zone (spec_oneYearEarlier y m d timeOfDay)
      else UTC zone (spec_oneMonthEarlier y m d timeOfDay))"

text \<open>The date of a transaction as an instant, whichever form the property holds it in.\<close>

fun spec_dateOf :: "date_value \<Rightarrow> int" where
  "spec_dateOf (DateObj t) = t"
| "spec_dateOf (IsoString t) = t"

definition spec_categorySpending ::
  "timeZone \<Rightarrow> int \<Rightarrow> int \<Rightarrow> int \<Rightarrow> int \<Rightarrow> int \<Rightarrow> portfolioState \<Rightarrow> string \<Rightarrow> string option
     \<Rightarrow> real" where
  "spec_categorySpending zone now y m d timeOfDay state category periodArg =
     (let period = (case periodArg of None \<Rightarrow> ''month'' | Some p \<Rightarrow> p);
          start = spec_windowStart zone now y m d timeOfDay period
      in sum_list
           (map (\<lambda>t. \<bar>t_amount t\<bar>)
              (filter (\<lambda>t. t_category t = category \<and> t_type t = Expense \<and>
                           start \<le> spec_dateOf (t_date t))
                 (transactions state))))"

section \<open>Example inputs\<close>

text \<open>Concrete states and arguments at which the theorems below are evaluated.\<close>

definition emptyState :: portfolioState where
  "emptyState = \<lparr>accounts = [], transactions = [], budgets = []\<rparr>"

definition exampleAccount :: "string \<Rightarrow> real \<Rightarrow> account_input" where
  "exampleAccount name balance =
     \<lparr>ai_name = name, ai_type = Checking, ai_balance = balance, ai_currency = ''USD''\<rparr>"

definition exampleExpense :: "string \<Rightarrow> real \<Rightarrow> date_value \<Rightarrow> transaction_input" where
  "exampleExpense accountId amount date =
     \<lparr>ti_accountId = accountId, ti_amount = amount, ti_description = ''Grocery Store'',
      ti_category = ''Food & Dining'', ti_date = date, ti_type = Expense\<rparr>"

definition moveAndReprice :: transaction_updates where
  "moveAndReprice =
     \<lparr>ut_id = None, ut_accountId = Some ''2'', ut_amount = Some (- 1000), ut_description = None,
      ut_category = None, ut_date = None, ut_type = None\<rparr>"

definition idOnly_account :: "string \<Rightarrow> account_updates" where
  "idOnly_account j =
     \<lparr>ua_id = Some j, ua_name = None, ua_type = None, ua_balance = None, ua_currency = None\<rparr>"

definition idOnly_transaction :: "string \<Rightarrow> transaction_updates" where
  "idOnly_transaction j =
     \<lparr>ut_id = Some j, ut_accountId = None, ut_amount = None, ut_description = None,
      ut_category = None, ut_date = None, ut_type = None\<rparr>"

definition idOnly_budget :: "string \<Rightarrow> budget_updates" where
  "idOnly_budget j =
     \<lparr>ub_id = Some j, ub_category = None, ub_limit = None, ub_spent = None, ub_period = None\<rparr>"

text \<open>A host on UTC, and the US Eastern zone with its two clock changes of 2024.\<close>

definition utcZone :: timeZone where
  "utcZone = \<lparr>tzaOfUTC = (\<lambda>t. 0), tzaOfLocal = (\<lambda>t. 0)\<rparr>"

definition easternTime2024 :: timeZone where
  "easternTime2024 =
     \<lparr>tzaOfUTC =
        (\<lambda>t. if 1710054000000 \<le> t \<and> t < 1730613600000 then - 14400000 else - 18000000),
      tzaOfLocal =
        (\<lambda>t. if 1710039600000 \<le> t \<and> t < 1730599200000 then - 14400000 else - 18000000)\<rparr>"

text \<open>A state whose only record is one expense of 25 on the given date.\<close>

definition oneExpense :: "int \<Rightarrow> portfolioState" where
  "oneExpense date =
     \<lparr>accounts = [],
      transactions =
        [\<lparr>t_id = ''1'', t_accountId = ''1'', t_amount = - 25, t_description = ''Lunch'',
          t_category = ''Food & Dining'', t_date = DateObj date, t_type = Expense\<rparr>],
      budgets = []\<rparr>"

section \<open>Calendar arithmetic\<close>

lemma div_step:
  fixes a n :: int
  assumes "0 < n"
  shows "(a + 1) div n = a div n + (if (a + 1) mod n = 0 then 1 else 0)"
proof -
  have a: "a = n * (a div n) + a mod n" by simp
  have r: "0 \<le> a mod n" "a mod n < n" using assms by simp_all
  show ?thesis
  proof (cases "a mod n = n - 1")
    case True
    then have "a + 1 = n * (a div n + 1)" using a by (metis add.commute add_diff_cancel_left' add_diff_eq distrib_left mult.right_neutral)
    then have "(a + 1) div n = a div n + 1" "(a + 1) mod n = 0"
      using assms by (metis nonzero_mult_div_cancel_left less_irrefl, metis mod_mult_self1_is_0)
    then show ?thesis by simp
  next
    case False
    then have lt: "a mod n + 1 < n" using r by linarith
    have "a + 1 = n * (a div n) + (a mod n + 1)" using a by linarith
    moreover have "0 \<le> a mod n + 1" using r by linarith
    ultimately have "(a + 1) div n = a div n" "(a + 1) mod n = a mod n + 1"
      using lt by (metis div_mult_self2 div_pos_pos_trivial add.commute add_cancel_left_left less_irrefl assms, metis mod_mult_self4 mod_pos_pos_trivial)
    then show ?thesis using r by simp
  qed
qed

lemma mod_shift:
  fixes y :: int
  shows "(y + k * n) mod n = 0 \<longleftrightarrow> y mod n = 0"
  by (metis mod_mult_self1)

lemma mod_coarser:
  fixes y :: int
  assumes "y mod m = 0" and "n dvd m"
  shows "y mod n = 0"
proof -
  have "m dvd y" using assms(1) by (simp add: dvd_eq_mod_eq_0)
  with assms(2) have "n dvd y" by (rule dvd_trans)
  then show ?thesis by (simp add: dvd_eq_mod_eq_0)
qed

lemma DayFromYear_step: "DayFromYear (y + 1) = DayFromYear y + DaysInYear y"
proof -
  have e4: "(y - 1969 + 1) mod 4 = 0 \<longleftrightarrow> y mod 4 = 0"
    using mod_shift [of y "- 492" 4] by simp
  have e100: "(y - 1901 + 1) mod 100 = 0 \<longleftrightarrow> y mod 100 = 0"
    using mod_shift [of y "- 19" 100] by simp
  have e400: "(y - 1601 + 1) mod 400 = 0 \<longleftrightarrow> y mod 400 = 0"
    using mod_shift [of y "- 4" 400] by simp
  have d4: "(y - 1969 + 1) div 4 = (y - 1969) div 4 + (if y mod 4 = 0 then 1 else 0)"
    using div_step [of 4 "y - 1969"] e4 by simp
  have d100: "(y - 1901 + 1) div 100 = (y - 1901) div 100 + (if y mod 100 = 0 then 1 else 0)"
    using div_step [of 100 "y - 1901"] e100 by simp
  have d400: "(y - 1601 + 1) div 400 = (y - 1601) div 400 + (if y mod 400 = 0 then 1 else 0)"
    using div_step [of 400 "y - 1601"] e400 by simp
  have i1: "y mod 100 = 0 \<Longrightarrow> y mod 4 = 0" by (rule mod_coarser [of y 100 4]) simp_all
  have i2: "y mod 400 = 0 \<Longrightarrow> y mod 100 = 0" by (rule mod_coarser [of y 400 100]) simp_all
  have "DayFromYear (y + 1) =
      365 * (y - 1970) + 365 + (y - 1969 + 1) div 4 - (y - 1901 + 1) div 100
        + (y - 1601 + 1) div 400"
    by (simp add: DayFromYear_def algebra_simps)
  also have "\<dots> = DayFromYear y + DaysInYear y"
    unfolding d4 d100 d400 using i1 i2 by (simp add: DayFromYear_def DaysInYear_def)
  finally show ?thesis .
qed

lemma DaysInYear_bounds: "365 \<le> DaysInYear y \<and> DaysInYear y \<le> 366"
  by (simp add: DaysInYear_def)

lemma DayFromYear_pred: "DayFromYear (y - 1) + 365 \<le> DayFromYear y"
  using DayFromYear_step [of "y - 1"] DaysInYear_bounds [of "y - 1"] by simp

lemma leapDays_range: "0 \<le> leapDays y \<and> leapDays y \<le> 1"
  by (simp add: leapDays_def)

lemma MonthFromTime_range: "0 \<le> MonthFromTime t \<and> MonthFromTime t \<le> 11"
  by (simp add: MonthFromTime_def Let_def)

lemma MakeDay_in_range:
  assumes "0 \<le> m" and "m \<le> 11"
  shows "MakeDay y m d = DayFromYear y + daysBeforeMonth m (leapDays y) + d - 1"
proof -
  have "m div 12 = 0" "m mod 12 = m" using assms by simp_all
  then show ?thesis by (simp add: MakeDay_def)
qed

lemma MakeDay_fields: "MakeDay (YearFromTime t) (MonthFromTime t) (DateFromTime t) = Day t"
  using MonthFromTime_range [of t]
  by (simp add: MakeDay_in_range DateFromTime_def InLeapYear_def DayWithinYear_def)

lemma MakeDay_shift: "MakeDay y m (d - k) = MakeDay y m d - k"
  by (simp add: MakeDay_def Let_def)

lemma MakeDate_Day: "MakeDate (Day t) (TimeWithinDay t) = t"
  by (simp add: MakeDate_def Day_def TimeWithinDay_def)

lemma daysBeforeMonth_leap:
  assumes "0 \<le> l" "l \<le> 1" "0 \<le> l'" "l' \<le> 1"
  shows "daysBeforeMonth m l \<le> daysBeforeMonth m l' + 1"
  using assms by (simp add: daysBeforeMonth_def)

lemma daysBeforeMonth_upper:
  assumes "l \<le> 1"
  shows "daysBeforeMonth m l \<le> 335"
  using assms by (simp add: daysBeforeMonth_def)

text \<open>
  The year computed from the estimate is the year of the day: its first day is not after
  the day, and the first day of the next year is.
\<close>

lemma div_bounds:
  fixes x n :: int
  assumes "0 < n"
  shows "x - (n - 1) \<le> n * (x div n) \<and> n * (x div n) \<le> x"
proof -
  have "x = n * (x div n) + x mod n" by simp
  moreover have "0 \<le> x mod n" "x mod n < n" using assms by simp_all
  ultimately show ?thesis by linarith
qed

lemma DayFromYear_estimate:
  "146097 * (y - 1970) - 506 \<le> 400 * DayFromYear y
   \<and> 400 * DayFromYear y \<le> 146097 * (y - 1970) + 589"
  using div_bounds [of 4 "y - 1969"] div_bounds [of 100 "y - 1901"] div_bounds [of 400 "y - 1601"]
  by (simp add: DayFromYear_def)

lemma YearFromTime_correct:
  "DayFromYear (YearFromTime t) \<le> Day t \<and> Day t < DayFromYear (YearFromTime t + 1)"
proof -
  define d where "d = Day t"
  define k where "k = (400 * d) div 146097"
  have k: "146097 * k \<le> 400 * d" "400 * d - 146096 \<le> 146097 * k"
    using div_bounds [of 146097 "400 * d"] by (simp_all add: k_def)
  have up: "d < DayFromYear (1970 + k + 2)"
    using DayFromYear_estimate [of "1970 + k + 2"] k by simp
  have low: "DayFromYear (1970 + k - 1) \<le> d"
    using DayFromYear_estimate [of "1970 + k - 1"] k by simp
  have "YearFromTime t =
      (if DayFromYear (1970 + k + 1) \<le> d then 1970 + k + 1
       else if d < DayFromYear (1970 + k) then 1970 + k - 1 else 1970 + k)"
    by (simp add: YearFromTime_def Let_def d_def k_def)
  then show ?thesis
    using up low unfolding d_def [symmetric] by (auto simp: algebra_simps)
qed

section \<open>The calendar read back\<close>

text \<open>
  The first day of a year is that of the year before plus its length, from day 0 in
  1970; the year, month and day that the \<^verbatim>\<open>Date\<close> methods read from a local time are the
  ones the plain calendar gives that time, and every local time has such a reading.
\<close>

lemma DayFromYear_mono:
  assumes "y \<le> y'"
  shows "DayFromYear y \<le> DayFromYear y'"
  using assms
proof (induction y' rule: int_ge_induct)
  case base
  then show ?case by simp
next
  case (step i)
  then show ?case
    using DayFromYear_step [of i] DaysInYear_bounds [of i] by simp
qed

lemma YearFromTime_unique:
  assumes "DayFromYear y \<le> Day t" and "Day t < DayFromYear (y + 1)"
  shows "YearFromTime t = y"
proof (rule ccontr)
  assume ne: "YearFromTime t \<noteq> y"
  have c: "DayFromYear (YearFromTime t) \<le> Day t" "Day t < DayFromYear (YearFromTime t + 1)"
    using YearFromTime_correct [of t] by simp_all
  show False
  proof (cases "YearFromTime t < y")
    case True
    then have "DayFromYear (YearFromTime t + 1) \<le> DayFromYear y"
      by (intro DayFromYear_mono) simp
    then show False using c(2) assms(1) by simp
  next
    case False
    then have "DayFromYear (y + 1) \<le> DayFromYear (YearFromTime t)"
      using ne by (intro DayFromYear_mono) simp
    then show False using c(1) assms(2) by simp
  qed
qed

lemma leapDays_spec: "leapDays y = (if spec_isLeapYear y then 1 else 0)"
proof -
  have i1: "y mod 100 = 0 \<Longrightarrow> y mod 4 = 0" by (rule mod_coarser [of y 100 4]) simp_all
  have i2: "y mod 400 = 0 \<Longrightarrow> y mod 100 = 0" by (rule mod_coarser [of y 400 100]) simp_all
  show ?thesis using i1 i2 by (auto simp: leapDays_def DaysInYear_def spec_isLeapYear_def)
qed

lemma DaysInYear_leapDays: "DaysInYear y = 365 + leapDays y"
  by (simp add: leapDays_def DaysInYear_def)

lemma DayFromYear_1970: "DayFromYear 1970 = 0"
  by (simp add: DayFromYear_def)

lemma DayFromYear_next:
  "DayFromYear (y + 1) = DayFromYear y + (if spec_isLeapYear y then 366 else 365)"
  by (simp add: DayFromYear_step DaysInYear_leapDays leapDays_spec)

lemma month_cases:
  assumes "0 \<le> m" and "m \<le> 11"
  shows "m = 0 \<or> m = 1 \<or> m = 2 \<or> m = 3 \<or> m = 4 \<or> m = 5 \<or> m = 6 \<or> m = 7 \<or> m = 8
       \<or> m = 9 \<or> m = 10 \<or> m = (11::int)"
  using assms by arith

lemma spec_daysBeforeMonth_eq:
  assumes "0 \<le> m" and "m \<le> 11"
  shows "spec_daysBeforeMonth y (nat m) = daysBeforeMonth m (leapDays y)"
  using month_cases [OF assms]
  by (elim disjE)
    (simp_all add: eval_nat_numeral spec_daysInMonth_def daysBeforeMonth_def leapDays_spec)

lemma MakeDate_spec_localTime:
  assumes "0 \<le> m" and "m \<le> 11"
  shows "MakeDate (MakeDay y m d) timeOfDay = spec_localTime y m d timeOfDay"
  using assms
  by (simp add: MakeDate_def MakeDay_in_range spec_localTime_def spec_daysBeforeMonth_eq
      msPerDay_def)

lemma day_and_time_of_sum:
  assumes "0 \<le> r" and "r < msPerDay"
  shows "Day (n * msPerDay + r) = n \<and> TimeWithinDay (n * msPerDay + r) = r"
proof -
  have "0 < msPerDay" by (simp add: msPerDay_def)
  then have "(n * msPerDay + r) div msPerDay = n" "(n * msPerDay + r) mod msPerDay = r"
    using assms by (simp_all add: div_pos_pos_trivial mod_pos_pos_trivial)
  then show ?thesis by (simp add: Day_def TimeWithinDay_def)
qed

lemma day_within_year_of_reading:
  assumes "0 \<le> m" and "m \<le> 11" and "1 \<le> d" and "d \<le> spec_daysInMonth y m"
  shows "0 \<le> daysBeforeMonth m (leapDays y) + d - 1
       \<and> daysBeforeMonth m (leapDays y) + d - 1 < 365 + leapDays y"
  using month_cases [OF assms(1,2)] assms(3,4)
  by (elim disjE)
    (simp_all add: spec_daysInMonth_def daysBeforeMonth_def leapDays_spec split: if_splits)

lemma month_of_day_within_year:
  assumes "0 \<le> m" and "m \<le> 11" and "1 \<le> d" and "d \<le> spec_daysInMonth y m"
    and "DayWithinYear t = daysBeforeMonth m (leapDays y) + d - 1"
    and "InLeapYear t = leapDays y"
  shows "MonthFromTime t = m"
  using month_cases [OF assms(1,2)] assms(3,4)
  by (elim disjE)
    (simp_all add: MonthFromTime_def assms(5,6) spec_daysInMonth_def daysBeforeMonth_def
      leapDays_spec split: if_splits)

lemma reading_of_spec_localTime:
  assumes "spec_validReading y m d timeOfDay"
  shows "YearFromTime (spec_localTime y m d timeOfDay) = y
       \<and> MonthFromTime (spec_localTime y m d timeOfDay) = m
       \<and> DateFromTime (spec_localTime y m d timeOfDay) = d
       \<and> TimeWithinDay (spec_localTime y m d timeOfDay) = timeOfDay"
proof -
  have v: "0 \<le> m" "m \<le> 11" "1 \<le> d" "d \<le> spec_daysInMonth y m"
    "0 \<le> timeOfDay" "timeOfDay < msPerDay"
    using assms by (simp_all add: spec_validReading_def msPerDay_def)
  define w where "w = daysBeforeMonth m (leapDays y) + d - 1"
  define lt where "lt = spec_localTime y m d timeOfDay"
  have lt: "lt = (DayFromYear y + w) * msPerDay + timeOfDay"
    using v(1,2) by (simp add: lt_def w_def spec_localTime_def spec_daysBeforeMonth_eq msPerDay_def)
  have w: "0 \<le> w" "w < 365 + leapDays y"
    using day_within_year_of_reading [OF v(1-4)] by (simp_all add: w_def)
  have day: "Day lt = DayFromYear y + w" and time: "TimeWithinDay lt = timeOfDay"
    using day_and_time_of_sum [OF v(5,6), of "DayFromYear y + w"] by (simp_all add: lt)
  have year: "YearFromTime lt = y"
    using w by (intro YearFromTime_unique) (simp_all add: day DayFromYear_step DaysInYear_leapDays)
  have dwy: "DayWithinYear lt = daysBeforeMonth m (leapDays y) + d - 1"
    by (simp add: DayWithinYear_def day year w_def)
  have leap: "InLeapYear lt = leapDays y" by (simp add: InLeapYear_def year)
  have month: "MonthFromTime lt = m"
    using v(1-4) dwy leap by (rule month_of_day_within_year)
  have "DateFromTime lt = d" by (simp add: DateFromTime_def dwy leap month)
  then show ?thesis using year month time unfolding lt_def by simp
qed

lemma DayWithinYear_range: "0 \<le> DayWithinYear t \<and> DayWithinYear t < 365 + InLeapYear t"
  using YearFromTime_correct [of t]
  by (simp add: DayWithinYear_def InLeapYear_def DayFromYear_step DaysInYear_leapDays)

lemma DateFromTime_range:
  "1 \<le> DateFromTime t \<and> DateFromTime t \<le> spec_daysInMonth (YearFromTime t) (MonthFromTime t)"
proof (cases "spec_isLeapYear (YearFromTime t)")
  case True
  then have l: "InLeapYear t = 1" by (simp add: InLeapYear_def leapDays_spec)
  show ?thesis
    using DayWithinYear_range [of t] True
    by (simp add: DateFromTime_def MonthFromTime_def Let_def daysBeforeMonth_def
        spec_daysInMonth_def l)
next
  case False
  then have l: "InLeapYear t = 0" by (simp add: InLeapYear_def leapDays_spec)
  show ?thesis
    using DayWithinYear_range [of t] False
    by (simp add: DateFromTime_def MonthFromTime_def Let_def daysBeforeMonth_def
        spec_daysInMonth_def l)
qed

lemma every_time_has_reading:
  "spec_validReading (YearFromTime t) (MonthFromTime t) (DateFromTime t) (TimeWithinDay t)
   \<and> spec_localTime (YearFromTime t) (MonthFromTime t) (DateFromTime t) (TimeWithinDay t) = t"
proof -
  have m: "0 \<le> MonthFromTime t" "MonthFromTime t \<le> 11" using MonthFromTime_range [of t] by simp_all
  have "0 \<le> TimeWithinDay t" "TimeWithinDay t < 24 * 60 * 60 * 1000"
    by (simp_all add: TimeWithinDay_def msPerDay_def)
  then have "spec_validReading (YearFromTime t) (MonthFromTime t) (DateFromTime t) (TimeWithinDay t)"
    using m DateFromTime_range [of t] by (simp add: spec_validReading_def)
  moreover have "spec_localTime (YearFromTime t) (MonthFromTime t) (DateFromTime t) (TimeWithinDay t) = t"
    using MakeDate_spec_localTime [OF m, of "YearFromTime t" "DateFromTime t" "TimeWithinDay t"]
    by (simp add: MakeDay_fields MakeDate_Day)
  ultimately show ?thesis by simp
qed

section \<open>Lists, reductions and the seed data\<close>

lemma reduce_sum: "foldl (\<lambda>total x. total + f x) (a::real) xs = a + sum_list (map f xs)"
  by (induction xs arbitrary: a) simp_all

lemma map_unless_match:
  assumes "\<forall>x\<in>set xs. \<not> P x"
  shows "map (\<lambda>x. if P x then f x else x) xs = xs"
  using assms by (induction xs) simp_all

lemma filter_no_match:
  assumes "\<forall>x\<in>set xs. k x \<noteq> i"
  shows "filter (\<lambda>x. k x \<noteq> i) xs = xs"
  using assms by (induction xs) simp_all

lemma find_after_credit:
  "find (\<lambda>acc. a_id acc = A)
     (map (\<lambda>account. if a_id account = A then account\<lparr>a_balance := a_balance account + x\<rparr>
                      else account) xs)
   = map_option (\<lambda>account. account\<lparr>a_balance := a_balance account + x\<rparr>)
       (find (\<lambda>acc. a_id acc = A) xs)"
  by (induction xs) simp_all

lemma find_Some_iff_ex: "(\<exists>a. find P xs = Some a) \<longleftrightarrow> (\<exists>a\<in>set xs. P a)"
  by (induction xs) auto

lemma getAccountBalance_find:
  "getAccountBalance s i =
     (case find (\<lambda>acc. a_id acc = i) (accounts s) of None \<Rightarrow> 0 | Some a \<Rightarrow> a_balance a)"
  by (simp add: getAccountBalance_def split: option.splits)

lemma getTotalBalance_sum: "getTotalBalance s = sum_list (map a_balance (accounts s))"
  by (simp add: getTotalBalance_def reduce_sum)

lemma accounts_addAccount_calls:
  "accounts (addAccount_calls calls s) =
     accounts s @ map (\<lambda>(newId, account). with_id_account account newId) calls"
  by (induction calls s rule: addAccount_calls.induct) (simp_all add: addAccount_def)

lemma term_le_sum_list:
  fixes f :: "'a \<Rightarrow> real"
  assumes "x \<in> set xs" and "\<forall>y\<in>set xs. 0 \<le> f y"
  shows "f x \<le> sum_list (map f xs)"
  using assms
proof (induction xs)
  case Nil
  then show ?case by simp
next
  case (Cons y ys)
  have "0 \<le> sum_list (map f ys)" using Cons.prems(2) by (intro sum_list_nonneg) auto
  then show ?case using Cons by auto
qed

lemma seed_account_ids: "map a_id (accounts (initialState zone)) = [''1'', ''2'', ''3'']"
  by (simp add: initialState_def)

lemma seed_transaction_ids: "map t_id (transactions (initialState zone)) = [''1'', ''2'', ''3'']"
  by (simp add: initialState_def)

lemma seed_budget_ids: "map b_id (budgets (initialState zone)) = [''1'', ''2'']"
  by (simp add: initialState_def)

lemma renamed_account_ids:
  "map a_id (accounts (updateAccount ''2'' (idOnly_account ''1'') (initialState zone))) =
     [''1'', ''1'', ''3'']"
  by (simp add: initialState_def updateAccount_def spread_account_def idOnly_account_def
      override_def)

lemma renamed_transaction_ids:
  "map t_id (transactions (updateTransaction ''2'' (idOnly_transaction ''1'') (initialState zone))) =
     [''1'', ''1'', ''3'']"
  by (simp add: initialState_def updateTransaction_def spread_transaction_def
      idOnly_transaction_def override_def)

lemma renamed_budget_ids:
  "map b_id (budgets (updateBudget ''2'' (idOnly_budget ''1'') (initialState zone))) =
     [''1'', ''1'']"
  by (simp add: initialState_def updateBudget_def spread_budget_def idOnly_budget_def
      override_def)

lemma seed_balance_1: "getAccountBalance (initialState zone) ''1'' = 5420.5"
  by (simp add: getAccountBalance_def initialState_def)

lemma seed_dates:
  "map t_date (transactions (initialState utcZone)) =
     [DateObj 1705276800000, DateObj 1705190400000, DateObj 1704844800000]"
  by (simp add: initialState_def newDate_def UTC_def utcZone_def MakeDate_def MakeDay_def Let_def
      DayFromYear_def daysBeforeMonth_def leapDays_def DaysInYear_def msPerDay_def)

section \<open>The window start\<close>

lemma MakeDay_month_borrow: "MakeDay y (- 1) d = MakeDay (y - 1) 11 d"
proof -
  have "(- 1 :: int) div 12 = - 1" "(- 1 :: int) mod 12 = 11" "(11 :: int) div 12 = 0"
    "(11 :: int) mod 12 = 11" by simp_all
  then show ?thesis by (simp add: MakeDay_def Let_def)
qed

lemma fields_of_same_day:
  assumes "Day a = Day b"
  shows "YearFromTime a = YearFromTime b \<and> MonthFromTime a = MonthFromTime b
       \<and> DateFromTime a = DateFromTime b"
proof -
  have y: "YearFromTime a = YearFromTime b" using assms by (simp add: YearFromTime_def)
  then have w: "DayWithinYear a = DayWithinYear b" "InLeapYear a = InLeapYear b"
    using assms by (simp_all add: DayWithinYear_def InLeapYear_def)
  then have m: "MonthFromTime a = MonthFromTime b" by (simp add: MonthFromTime_def)
  then show ?thesis using y w by (simp add: DateFromTime_def)
qed

text \<open>The window of the code in terms of what the local clock reads at the two readings.\<close>

lemma windowStart_of_readings:
  assumes "spec_validReading yn mn dn tn" and "LocalTime zone now = spec_localTime yn mn dn tn"
    and "spec_validReading ys ms ds ts" and "LocalTime zone startDate = spec_localTime ys ms ds ts"
  shows "windowStart zone now startDate period =
     (if period = ''week'' then UTC zone (MakeDate (MakeDay ys ms (dn - 7)) ts)
      else if period = ''year'' then UTC zone (MakeDate (MakeDay (yn - 1) ms ds) ts)
      else UTC zone (MakeDate (MakeDay ys (mn - 1) ds) ts))"
  using reading_of_spec_localTime [OF assms(1)] reading_of_spec_localTime [OF assms(3)]
  by (simp add: windowStart_def setDate_def setFullYear_def setMonth_def getDate_def
      getFullYear_def getMonth_def Let_def assms(2,4))

lemma MakeDate_week_earlier:
  assumes "spec_validReading y m d timeOfDay"
  shows "MakeDate (MakeDay y m (d - 7)) timeOfDay =
     spec_localTime y m d timeOfDay - 7 * 24 * 60 * 60 * 1000"
proof -
  have m: "0 \<le> m" "m \<le> 11" using assms by (simp_all add: spec_validReading_def)
  have "MakeDate (MakeDay y m (d - 7)) timeOfDay = MakeDate (MakeDay y m d) timeOfDay - 7 * msPerDay"
    by (simp add: MakeDay_shift MakeDate_def algebra_simps)
  then show ?thesis using MakeDate_spec_localTime [OF m] by (simp add: msPerDay_def)
qed

lemma MakeDate_month_earlier:
  assumes "spec_validReading y m d timeOfDay"
  shows "MakeDate (MakeDay y (m - 1) d) timeOfDay =
     spec_localTime (if m = 0 then y - 1 else y) (if m = 0 then 11 else m - 1) d timeOfDay"
proof (cases "m = 0")
  case True
  then show ?thesis
    using MakeDate_spec_localTime [of 11 "y - 1" d timeOfDay] by (simp add: MakeDay_month_borrow)
next
  case False
  then have "0 \<le> m - 1" "m - 1 \<le> 11" using assms by (simp_all add: spec_validReading_def)
  then show ?thesis using False MakeDate_spec_localTime [of "m - 1" y d timeOfDay] by simp
qed

lemma windowStart_same_day:
  assumes "spec_validReading y m d timeOfDay"
    and "LocalTime zone startDate = spec_localTime y m d timeOfDay"
    and "Day (LocalTime zone now) = Day (LocalTime zone startDate)"
  shows "windowStart zone now startDate period =
     (if period = ''week'' then UTC zone (LocalTime zone startDate - 7 * 24 * 60 * 60 * 1000)
      else if period = ''year'' then UTC zone (spec_localTime (y - 1) m d timeOfDay)
      else UTC zone (spec_localTime (if m = 0 then y - 1 else y) (if m = 0 then 11 else m - 1)
                       d timeOfDay))"
proof -
  have m: "0 \<le> m" "m \<le> 11" using assms(1) by (simp_all add: spec_validReading_def)
  have f: "YearFromTime (LocalTime zone startDate) = y" "MonthFromTime (LocalTime zone startDate) = m"
    "DateFromTime (LocalTime zone startDate) = d" "TimeWithinDay (LocalTime zone startDate) = timeOfDay"
    using reading_of_spec_localTime [OF assms(1)] by (simp_all add: assms(2))
  have g: "YearFromTime (LocalTime zone now) = y" "MonthFromTime (LocalTime zone now) = m"
    "DateFromTime (LocalTime zone now) = d"
    using fields_of_same_day [OF assms(3)] f by simp_all
  have "windowStart zone now startDate period =
     (if period = ''week'' then UTC zone (MakeDate (MakeDay y m (d - 7)) timeOfDay)
      else if period = ''year'' then UTC zone (MakeDate (MakeDay (y - 1) m d) timeOfDay)
      else UTC zone (MakeDate (MakeDay y (m - 1) d) timeOfDay))"
    by (simp add: windowStart_def setDate_def setFullYear_def setMonth_def getDate_def
        getFullYear_def getMonth_def Let_def f g)
  then show ?thesis
    using MakeDate_week_earlier [OF assms(1)] MakeDate_month_earlier [OF assms(1)]
      MakeDate_spec_localTime [OF m, of "y - 1" d timeOfDay]
    by (simp add: assms(2))
qed



lemma daysBeforeMonth_gap:
  assumes "1 \<le> m" "m \<le> 11" "0 \<le> l" "l \<le> 1"
  shows "daysBeforeMonth (m - 1) l + 28 \<le> daysBeforeMonth m l"
proof -
  have "m = 1 \<or> m = 2 \<or> m = 3 \<or> m = 4 \<or> m = 5 \<or> m = 6 \<or> m = 7 \<or> m = 8 \<or> m = 9 \<or> m = 10 \<or> m = 11"
    using assms by arith
  then show ?thesis using assms(3,4) by (auto simp: daysBeforeMonth_def)
qed

lemma MakeDay_year_gap:
  assumes "0 \<le> m" "m \<le> 11"
  shows "MakeDay (y - 1) m d + 364 \<le> MakeDay y m d"
  using DayFromYear_pred [of y] leapDays_range [of y] leapDays_range [of "y - 1"]
    daysBeforeMonth_leap [of "leapDays (y - 1)" "leapDays y" m] assms
  by (simp add: MakeDay_in_range)

lemma MakeDay_month_gap:
  assumes "0 \<le> m" "m \<le> 11"
  shows "MakeDay y (m - 1) d + 28 \<le> MakeDay y m d"
proof (cases "m = 0")
  case True
  have "MakeDay y (- 1) d = DayFromYear (y - 1) + daysBeforeMonth 11 (leapDays (y - 1)) + d - 1"
    by (simp add: MakeDay_month_borrow MakeDay_in_range)
  moreover have "daysBeforeMonth 11 (leapDays (y - 1)) \<le> 335"
    using leapDays_range [of "y - 1"] by (simp add: daysBeforeMonth_upper)
  moreover have "MakeDay y 0 d = DayFromYear y + d - 1"
    by (simp add: MakeDay_in_range daysBeforeMonth_def)
  ultimately show ?thesis using DayFromYear_pred [of y] True by simp
next
  case False
  then have m: "1 \<le> m" using assms by simp
  then have "0 \<le> m - 1" "m - 1 \<le> 11" using assms by simp_all
  then have "MakeDay y (m - 1) d = DayFromYear y + daysBeforeMonth (m - 1) (leapDays y) + d - 1"
    by (rule MakeDay_in_range)
  then show ?thesis
    using daysBeforeMonth_gap [of m "leapDays y"] m assms leapDays_range [of y]
    by (simp add: MakeDay_in_range)
qed

lemma Day_bounds: "Day t * msPerDay \<le> t \<and> t < (Day t + 1) * msPerDay"
  using div_bounds [of msPerDay t] by (simp add: Day_def msPerDay_def algebra_simps)

text \<open>
  For two readings on the same local day the window starts at least seven days back on
  the local clock, whatever the period.
\<close>

lemma windowStart_local_gap:
  assumes "Day (LocalTime zone now) = Day (LocalTime zone startDate)"
  shows "\<exists>x. windowStart zone now startDate period = UTC zone x
     \<and> x + 7 * msPerDay \<le> LocalTime zone startDate"
proof -
  define lt where "lt = LocalTime zone startDate"
  define y where "y = YearFromTime lt"
  define m where "m = MonthFromTime lt"
  define d where "d = DateFromTime lt"
  have m: "0 \<le> m" "m \<le> 11" using MonthFromTime_range [of lt] by (simp_all add: m_def)
  have g: "YearFromTime (LocalTime zone now) = y" "MonthFromTime (LocalTime zone now) = m"
    "DateFromTime (LocalTime zone now) = d"
    using fields_of_same_day [OF assms] by (simp_all add: y_def m_def d_def lt_def)
  have w: "windowStart zone now startDate period =
     UTC zone (MakeDate
       (if period = ''week'' then MakeDay y m (d - 7)
        else if period = ''year'' then MakeDay (y - 1) m d else MakeDay y (m - 1) d)
       (TimeWithinDay lt))"
    by (simp add: windowStart_def setDate_def setFullYear_def setMonth_def getDate_def
        getFullYear_def getMonth_def Let_def g)
      (simp add: y_def m_def d_def lt_def)
  have "MakeDay y m d = Day lt" by (simp add: y_def m_def d_def MakeDay_fields)
  then have "(if period = ''week'' then MakeDay y m (d - 7)
        else if period = ''year'' then MakeDay (y - 1) m d else MakeDay y (m - 1) d) + 7 \<le> Day lt"
    using MakeDay_year_gap [OF m, of y d] MakeDay_month_gap [OF m, of y d]
    by (simp add: MakeDay_shift)
  then have "MakeDate (if period = ''week'' then MakeDay y m (d - 7)
        else if period = ''year'' then MakeDay (y - 1) m d else MakeDay y (m - 1) d)
       (TimeWithinDay lt) + 7 * msPerDay \<le> MakeDate (Day lt) (TimeWithinDay lt)"
    unfolding MakeDate_def by (simp add: msPerDay_def)
  then show ?thesis using w by (auto simp: MakeDate_Day lt_def)
qed

lemma windowStart_not_after_now:
  assumes "Day (LocalTime zone now) = Day (LocalTime zone startDate)"
    and "\<And>t. \<bar>tzaOfUTC zone t\<bar> \<le> msPerDay" and "\<And>t. \<bar>tzaOfLocal zone t\<bar> \<le> msPerDay"
  shows "windowStart zone now startDate period \<le> now"
proof -
  obtain x where x: "windowStart zone now startDate period = UTC zone x"
    "x + 7 * msPerDay \<le> LocalTime zone startDate"
    using windowStart_local_gap [OF assms(1)] by blast
  have "LocalTime zone startDate < (Day (LocalTime zone now) + 1) * msPerDay"
    using Day_bounds [of "LocalTime zone startDate"] by (simp add: assms(1))
  moreover have "Day (LocalTime zone now) * msPerDay \<le> LocalTime zone now"
    using Day_bounds [of "LocalTime zone now"] by simp
  ultimately have "LocalTime zone startDate < LocalTime zone now + msPerDay"
    by (simp add: algebra_simps)
  then have "x + 6 * msPerDay < LocalTime zone now" using x(2) by simp
  moreover have "UTC zone x \<le> x + msPerDay"
    using assms(3) [of x] by (simp add: UTC_def)
  moreover have "LocalTime zone now \<le> now + msPerDay"
    using assms(2) [of now] by (simp add: LocalTime_def)
  ultimately show ?thesis using x(1) by (simp add: msPerDay_def)
qed

text \<open>
  So on a host whose offsets stay within a day, an expense dated after now is counted when
  both readings fall on the same local day.
\<close>

lemma future_expense_counts_same_day:
  assumes "Day (LocalTime zone now) = Day (LocalTime zone startDate)"
    and "\<And>t. \<bar>tzaOfUTC zone t\<bar> \<le> msPerDay" and "\<And>t. \<bar>tzaOfLocal zone t\<bar> \<le> msPerDay"
    and "t_category tx = category" and "t_type tx = Expense"
    and "t_date tx = DateObj v" and "now < v"
  shows "(tx \<in> set (transactions state) \<longrightarrow>
            \<bar>t_amount tx\<bar> \<le> getCategorySpending zone now startDate state category periodArg)
       \<and> getCategorySpending zone now startDate (state\<lparr>transactions := transactions state @ [tx]\<rparr>)
            category periodArg =
          getCategorySpending zone now startDate state category periodArg + \<bar>t_amount tx\<bar>"
proof -
  define start where
    "start = windowStart zone now startDate (case periodArg of None \<Rightarrow> ''month'' | Some p \<Rightarrow> p)"
  have "start \<le> now" unfolding start_def by (rule windowStart_not_after_now [OF assms(1-3)])
  then have ge: "date_ge (t_date tx) start" using assms(6,7) by simp
  have spend: "\<And>st. getCategorySpending zone now startDate st category periodArg =
      sum_list (map (\<lambda>t. \<bar>t_amount t\<bar>) (spendingFilter category start (transactions st)))"
    by (simp add: getCategorySpending_def Let_def start_def reduce_sum)
  have keep: "spendingFilter category start [tx] = [tx]"
    using assms(4,5) ge by (simp add: spendingFilter_def)
  have app: "\<And>xs ys. spendingFilter category start (xs @ ys) =
      spendingFilter category start xs @ spendingFilter category start ys"
    by (simp add: spendingFilter_def)
  have mem: "tx \<in> set (transactions state) \<Longrightarrow>
      tx \<in> set (spendingFilter category start (transactions state))"
    using assms(4,5) ge by (simp add: spendingFilter_def)
  have le: "tx \<in> set (transactions state) \<Longrightarrow>
      \<bar>t_amount tx\<bar> \<le> getCategorySpending zone now startDate state category periodArg"
  proof -
    assume "tx \<in> set (transactions state)"
    then have "tx \<in> set (spendingFilter category start (transactions state))" by (rule mem)
    then show ?thesis unfolding spend by (intro term_le_sum_list) simp_all
  qed
  have add: "getCategorySpending zone now startDate (state\<lparr>transactions := transactions state @ [tx]\<rparr>)
      category periodArg = getCategorySpending zone now startDate state category periodArg + \<bar>t_amount tx\<bar>"
    unfolding spend by (simp add: app keep)
  show ?thesis using le add by blast
qed

section \<open>The window at example instants\<close>

lemma utcZone_times: "LocalTime utcZone t = t \<and> UTC utcZone t = t"
  by (simp add: LocalTime_def UTC_def utcZone_def)

lemma example_readings:
  "spec_localTime 2024 0 19 77600000 = 1705700000000
   \<and> spec_localTime 2024 0 23 5 = 1705968000005
   \<and> spec_localTime 2023 11 23 5 = 1703289600005
   \<and> spec_localTime 2023 0 23 5 = 1674432000005
   \<and> spec_localTime 2024 0 31 86399999 = 1706745599999
   \<and> spec_localTime 2024 1 1 0 = 1706745600000
   \<and> spec_localTime 2024 2 31 43200000 = 1711886400000
   \<and> spec_localTime 2024 1 29 43200000 = 1709208000000
   \<and> spec_localTime 2024 1 31 43200000 = 1709380800000
   \<and> spec_localTime 2024 2 12 43200000 = 1710244800000"
  by (simp add: spec_localTime_def DayFromYear_def eval_nat_numeral spec_daysInMonth_def
      spec_isLeapYear_def)

lemma example_readings_valid:
  "spec_validReading 2024 0 19 77600000 \<and> spec_validReading 2024 0 23 5
   \<and> spec_validReading 2024 0 31 86399999 \<and> spec_validReading 2024 1 1 0
   \<and> spec_validReading 2024 2 31 43200000 \<and> spec_validReading 2024 2 12 43200000"
  by (simp add: spec_validReading_def spec_daysInMonth_def spec_isLeapYear_def)


lemma oneExpense_spending:
  "spendingFilter ''Food & Dining'' start (transactions (oneExpense date)) =
     (if start \<le> date then transactions (oneExpense date) else [])
   \<and> sum_list (map (\<lambda>t. \<bar>t_amount t\<bar>) (transactions (oneExpense date))) = 25"
  by (simp add: spendingFilter_def oneExpense_def)

lemma getCategorySpending_oneExpense:
  "getCategorySpending zone now startDate (oneExpense date) ''Food & Dining'' periodArg =
     (if windowStart zone now startDate (case periodArg of None \<Rightarrow> ''month'' | Some p \<Rightarrow> p) \<le> date
      then 25 else 0)"
  by (simp add: getCategorySpending_def Let_def oneExpense_spending reduce_sum)



text \<open>
  When the clock passes local midnight between the two readings the fields no longer fit
  together. With \<^verbatim>\<open>now\<close> read at 2024-01-31T23:59:59.999 and \<^verbatim>\<open>startDate\<close> one millisecond
  later, \<^verbatim>\<open>setDate(24)\<close> acts on a date in February.
\<close>

lemma week_window_across_midnight:
  "windowStart utcZone 1706745599999 1706745600000 ''week'' = 1708732800000"
proof -
  have v: "spec_validReading 2024 0 31 86399999" "spec_validReading 2024 1 1 0"
    using example_readings_valid by simp_all
  have r: "LocalTime utcZone 1706745599999 = spec_localTime 2024 0 31 86399999"
    "LocalTime utcZone 1706745600000 = spec_localTime 2024 1 1 0"
    using example_readings by (simp_all add: utcZone_times)
  have "MakeDay 2024 1 24 = 19777"
    by (simp add: MakeDay_def DayFromYear_def daysBeforeMonth_def)
  then show ?thesis
    using windowStart_of_readings [OF v(1) r(1) v(2) r(2), of "''week''"]
    by (simp add: utcZone_times MakeDate_def msPerDay_def)
qed

text \<open>
  Where clocks change, seven days back on the local clock are not 168 hours: in the US
  Eastern zone at noon of 12 March 2024 the week window starts one hour late.
\<close>

lemma week_window_across_clock_change:
  "windowStart easternTime2024 1710259200000 1710259200000 ''week'' =
     1710259200000 - 7 * 24 * 60 * 60 * 1000 + 60 * 60 * 1000"
proof -
  have v: "spec_validReading 2024 2 12 43200000" using example_readings_valid by simp
  have lt: "LocalTime easternTime2024 1710259200000 = 1710244800000"
    by (simp add: LocalTime_def easternTime2024_def)
  have r: "LocalTime easternTime2024 1710259200000 = spec_localTime 2024 2 12 43200000"
    using example_readings by (simp add: lt)
  have "windowStart easternTime2024 1710259200000 1710259200000 ''week'' =
      UTC easternTime2024 1709640000000"
    using windowStart_same_day [OF v r, of 1710259200000 "''week''"] by (simp add: lt)
  also have "\<dots> = 1709658000000" by (simp add: UTC_def easternTime2024_def)
  finally show ?thesis by simp
qed

lemma seed_food_expenses:
  "filter (\<lambda>t. t_category t = ''Food & Dining'' \<and> t_type t = Expense \<and> start \<le> spec_dateOf (t_date t))
     (transactions (initialState utcZone)) =
   (if start \<le> 1705276800000 then [transactions (initialState utcZone) ! 0] else [])"
  by (simp add: initialState_def newDate_def UTC_def utcZone_def MakeDate_def MakeDay_def
      DayFromYear_def daysBeforeMonth_def leapDays_def DaysInYear_def msPerDay_def)

lemma seed_first_amount: "\<bar>t_amount (transactions (initialState utcZone) ! 0)\<bar> = 89.5"
  by (simp add: initialState_def)

lemma example_windows:
  "spec_windowStart utcZone 1705700000000 2024 0 19 77600000 ''week'' = 1705095200000
   \<and> spec_windowStart utcZone 1705968000005 2024 0 23 5 ''week'' = 1705363200005
   \<and> spec_windowStart utcZone 1705968000005 2024 0 23 5 ''month'' = 1703289600005
   \<and> spec_windowStart utcZone 1705968000005 2024 0 23 5 ''year'' = 1674432000005"
  using example_readings
  by (simp add: spec_windowStart_def spec_oneMonthEarlier_def spec_oneYearEarlier_def
      spec_daysInMonth_def utcZone_times)

section \<open>Reloading the persisted state\<close>

lemma json_date_not_Date: "json_date v \<noteq> DateObj d"
  by (cases v) simp_all

lemma persist_then_rehydrate_collections:
  "accounts (persist_then_rehydrate init s) = accounts s
   \<and> budgets (persist_then_rehydrate init s) = budgets s
   \<and> transactions (persist_then_rehydrate init s) = map json_transaction (transactions s)"
  by (simp add: persist_then_rehydrate_def rehydrate_def json_roundtrip_def partialize_def)

lemma reloaded_state_differs:
  assumes "t \<in> set (transactions s)" and "t_date t = DateObj d"
  shows "persist_then_rehydrate init s \<noteq> s"
proof
  assume "persist_then_rehydrate init s = s"
  then have "map json_transaction (transactions s) = map (\<lambda>t. t) (transactions s)"
    using persist_then_rehydrate_collections [of init s] by simp
  then have "json_transaction t = t" using assms(1) by (simp only: map_eq_conv)
  then have "t_date (json_transaction t) = DateObj d" using assms(2) by simp
  then show False by (simp add: json_transaction_def json_date_not_Date)
qed

lemma spending_after_reload:
  "getCategorySpending zone now startDate (persist_then_rehydrate init s) category periodArg = 0"
proof -
  have "\<And>start v. \<not> date_ge (json_date v) start"
  proof -
    fix start v show "\<not> date_ge (json_date v) start" by (cases v) simp_all
  qed
  then have "\<And>start. spendingFilter category start (map json_transaction (transactions s)) = []"
    by (simp add: spendingFilter_def json_transaction_def)
  then show ?thesis
    by (simp add: getCategorySpending_def Let_def persist_then_rehydrate_collections)
qed

text \<open>
  On the reloaded seed the dates are strings: the store counts none of them, whatever
  dates they spell.
\<close>

lemma spec_dateOf_json_date: "spec_dateOf (json_date v) = spec_dateOf v"
  by (cases v) simp_all

lemma reloaded_seed_spending:
  "getCategorySpending utcZone 1705700000000 1705700000000
     (persist_then_rehydrate s0 (initialState utcZone)) ''Food & Dining'' (Some ''week'') = 0
   \<and> spec_categorySpending utcZone 1705700000000 2024 0 19 77600000
     (persist_then_rehydrate s0 (initialState utcZone)) ''Food & Dining'' (Some ''week'') = 89.5"
proof -
  have "filter (\<lambda>t. t_category t = ''Food & Dining'' \<and> t_type t = Expense \<and>
        1705095200000 \<le> spec_dateOf (t_date t))
      (map json_transaction (transactions (initialState utcZone))) =
      map json_transaction
        (filter (\<lambda>t. t_category t = ''Food & Dining'' \<and> t_type t = Expense \<and>
            1705095200000 \<le> spec_dateOf (t_date t))
          (transactions (initialState utcZone)))"
    by (simp add: filter_map comp_def json_transaction_def spec_dateOf_json_date)
  also have "\<dots> = map json_transaction [transactions (initialState utcZone) ! 0]"
    by (simp add: seed_food_expenses)
  finally have "spec_categorySpending utcZone 1705700000000 2024 0 19 77600000
     (persist_then_rehydrate s0 (initialState utcZone)) ''Food & Dining'' (Some ''week'') = 89.5"
    using example_windows seed_first_amount
    by (simp add: spec_categorySpending_def persist_then_rehydrate_collections
        json_transaction_def)
  then show ?thesis by (simp add: spending_after_reload)
qed

section \<open>Properties of the store\<close>

text \<open>
  Claim C1. In a state that has an account with id \<open>A\<close>, \<^verbatim>\<open>addTransaction\<close> with a transaction
  for account \<open>A\<close> and amount \<open>X\<close> appends one transaction, which carries the generated id and
  the fields given, adds \<open>X\<close> to the balance of every account whose id is \<open>A\<close>, and
  \<^verbatim>\<open>getAccountBalance(A)\<close> afterwards is its value before plus \<open>X\<close>, whatever the sign of \<open>X\<close>.
\<close>

theorem addTransaction_credits_account:
  assumes "\<exists>a\<in>set (accounts s). a_id a = ti_accountId tx"
  shows "transactions (addTransaction newId tx s) = transactions s @ [with_id_transaction tx newId]
       \<and> accounts (addTransaction newId tx s) =
           map (\<lambda>a. if a_id a = ti_accountId tx then a\<lparr>a_balance := a_balance a + ti_amount tx\<rparr> else a)
             (accounts s)
       \<and> getAccountBalance (addTransaction newId tx s) (ti_accountId tx) =
           getAccountBalance s (ti_accountId tx) + ti_amount tx"
proof -
  obtain a where a: "find (\<lambda>acc. a_id acc = ti_accountId tx) (accounts s) = Some a"
    using assms find_Some_iff_ex [of "\<lambda>acc. a_id acc = ti_accountId tx" "accounts s"] by blast
  have "getAccountBalance (addTransaction newId tx s) (ti_accountId tx) =
      getAccountBalance s (ti_accountId tx) + ti_amount tx"
    by (simp add: getAccountBalance_find addTransaction_def Let_def find_after_credit a)
  then show ?thesis by (simp add: addTransaction_def Let_def)
qed

theorem addTransaction_credits_account_witness:
  "(\<exists>a\<in>set (accounts (initialState utcZone)). a_id a = ''1'')
   \<and> getAccountBalance
        (addTransaction ''4'' (exampleExpense ''1'' (- 89.5) (DateObj 1705700000000)) (initialState utcZone))
        ''1'' = 5331"
proof -
  have h: "\<exists>a\<in>set (accounts (initialState utcZone)).
      a_id a = ti_accountId (exampleExpense ''1'' (- 89.5) (DateObj 1705700000000))"
    by (simp add: initialState_def exampleExpense_def)
  have "getAccountBalance
        (addTransaction ''4'' (exampleExpense ''1'' (- 89.5) (DateObj 1705700000000)) (initialState utcZone))
        ''1'' = 5420.5 + (- 89.5)"
    using addTransaction_credits_account [OF h, of "''4''"]
    by (simp add: seed_balance_1 exampleExpense_def)
  then show ?thesis by (simp add: initialState_def)
qed

text \<open>
  Claim C2. After \<^verbatim>\<open>deleteTransaction(id)\<close> no transaction with that id is left in the
  collection or in any result of \<^verbatim>\<open>getTransactionsByAccount\<close>, and the accounts are the same
  as before: every balance and the total balance are unchanged. After
  \<^verbatim>\<open>updateTransaction(id, fields)\<close> the accounts are the same as before too, whatever the
  fields change, the amount and the account id included.
\<close>

theorem transaction_edits_keep_balances:
  "(\<forall>t\<in>set (transactions (deleteTransaction i s)). t_id t \<noteq> i)
   \<and> (\<forall>accountId. \<forall>t\<in>set (getTransactionsByAccount (deleteTransaction i s) accountId). t_id t \<noteq> i)
   \<and> accounts (deleteTransaction i s) = accounts s
   \<and> (\<forall>accountId. getAccountBalance (deleteTransaction i s) accountId = getAccountBalance s accountId)
   \<and> getTotalBalance (deleteTransaction i s) = getTotalBalance s
   \<and> accounts (updateTransaction i u s) = accounts s
   \<and> (\<forall>accountId. getAccountBalance (updateTransaction i u s) accountId = getAccountBalance s accountId)
   \<and> getTotalBalance (updateTransaction i u s) = getTotalBalance s"
  by (simp add: deleteTransaction_def updateTransaction_def getTransactionsByAccount_def
      getAccountBalance_def getTotalBalance_def)

theorem transaction_edits_keep_balances_witness:
  "map t_id (getTransactionsByAccount (deleteTransaction ''1'' (initialState utcZone)) ''1'') = [''2'', ''3'']
   \<and> ''1'' \<notin> t_id ` set (getTransactionsByAccount (deleteTransaction ''1'' (initialState utcZone)) ''1'')
   \<and> getAccountBalance (deleteTransaction ''1'' (initialState utcZone)) ''1'' = 5420.5
   \<and> getAccountBalance (updateTransaction ''1'' moveAndReprice (initialState utcZone)) ''1'' = 5420.5
   \<and> getAccountBalance (updateTransaction ''1'' moveAndReprice (initialState utcZone)) ''2'' = 15000"
proof -
  have ids: "map t_id (getTransactionsByAccount (deleteTransaction ''1'' (initialState utcZone)) ''1'') =
      [''2'', ''3'']"
    by (simp add: getTransactionsByAccount_def deleteTransaction_def initialState_def)
  have b2: "getAccountBalance (initialState utcZone) ''2'' = 15000"
    by (simp add: getAccountBalance_def initialState_def)
  show ?thesis
    using ids b2 seed_balance_1 [of utcZone]
      transaction_edits_keep_balances [of "''1''" "initialState utcZone" moveAndReprice]
    by auto
qed




text \<open>
  Claim C4. Writing the three collections to storage and reading them back should give
  the same collections, the dates of the transactions included. Evaluated on the seed
  state: every date that was a \<^verbatim>\<open>Date\<close> comes back as a string, so the state read back is
  not the state written.
\<close>

theorem reload_turns_dates_into_strings:
  "map t_date (transactions (persist_then_rehydrate (initialState utcZone) (initialState utcZone))) =
     [IsoString 1705276800000, IsoString 1705190400000, IsoString 1704844800000]
   \<and> map t_date (transactions (initialState utcZone)) =
     [DateObj 1705276800000, DateObj 1705190400000, DateObj 1704844800000]
   \<and> persist_then_rehydrate (initialState utcZone) (initialState utcZone) \<noteq> initialState utcZone"
proof -
  have a: "map t_date (transactions (persist_then_rehydrate (initialState utcZone) (initialState utcZone))) =
      map json_date (map t_date (transactions (initialState utcZone)))"
    by (simp add: persist_then_rehydrate_collections json_transaction_def comp_def)
  have b: "persist_then_rehydrate (initialState utcZone) (initialState utcZone) \<noteq> initialState utcZone"
  proof
    assume "persist_then_rehydrate (initialState utcZone) (initialState utcZone) = initialState utcZone"
    then have "map t_date (transactions (persist_then_rehydrate (initialState utcZone) (initialState utcZone))) =
        map t_date (transactions (initialState utcZone))" by simp
    then show False unfolding a unfolding seed_dates by simp
  qed
  show ?thesis using b unfolding a seed_dates by simp
qed

text \<open>
  Claim C5. When no account has the account id of the transaction, \<^verbatim>\<open>addTransaction\<close> still
  appends the transaction, so the collection is one longer, and the accounts and the
  budgets are unchanged. The operation is a total function: it does not fail.
\<close>

theorem addTransaction_unknown_account:
  assumes "\<forall>a\<in>set (accounts s). a_id a \<noteq> ti_accountId tx"
  shows "transactions (addTransaction newId tx s) = transactions s @ [with_id_transaction tx newId]
       \<and> length (transactions (addTransaction newId tx s)) = length (transactions s) + 1
       \<and> accounts (addTransaction newId tx s) = accounts s
       \<and> budgets (addTransaction newId tx s) = budgets s"
  using map_unless_match [of "accounts s" "\<lambda>a. a_id a = ti_accountId tx"] assms
  by (simp add: addTransaction_def Let_def)

theorem addTransaction_unknown_account_witness:
  "''99'' \<notin> a_id ` set (accounts (initialState utcZone))
   \<and> length (transactions
        (addTransaction ''4'' (exampleExpense ''99'' (- 89.5) (DateObj 1705700000000)) (initialState utcZone))) = 4
   \<and> accounts
        (addTransaction ''4'' (exampleExpense ''99'' (- 89.5) (DateObj 1705700000000)) (initialState utcZone)) =
       accounts (initialState utcZone)"
proof -
  have h: "\<forall>a\<in>set (accounts (initialState utcZone)).
      a_id a \<noteq> ti_accountId (exampleExpense ''99'' (- 89.5) (DateObj 1705700000000))"
    by (simp add: initialState_def exampleExpense_def)
  have l: "length (transactions (initialState utcZone)) = 3" by (simp add: initialState_def)
  have "length (transactions
        (addTransaction ''4'' (exampleExpense ''99'' (- 89.5) (DateObj 1705700000000)) (initialState utcZone))) = 4
   \<and> accounts
        (addTransaction ''4'' (exampleExpense ''99'' (- 89.5) (DateObj 1705700000000)) (initialState utcZone)) =
       accounts (initialState utcZone)"
    using addTransaction_unknown_account [OF h, of "''4''"] l by simp
  then show ?thesis by (simp add: initialState_def)
qed

text \<open>
  Claim C6. When no record of the collection has the given id, each of \<^verbatim>\<open>updateAccount\<close>,
  \<^verbatim>\<open>deleteAccount\<close>, \<^verbatim>\<open>updateTransaction\<close>, \<^verbatim>\<open>deleteTransaction\<close>, \<^verbatim>\<open>updateBudget\<close> and
  \<^verbatim>\<open>deleteBudget\<close> returns the state it was given, all three collections unchanged.
\<close>

theorem unknown_id_is_noop:
  "((\<forall>a\<in>set (accounts s). a_id a \<noteq> i) \<longrightarrow>
      updateAccount i ua s = s \<and> deleteAccount i s = s)
   \<and> ((\<forall>t\<in>set (transactions s). t_id t \<noteq> i) \<longrightarrow>
      updateTransaction i ut s = s \<and> deleteTransaction i s = s)
   \<and> ((\<forall>b\<in>set (budgets s). b_id b \<noteq> i) \<longrightarrow>
      updateBudget i ub s = s \<and> deleteBudget i s = s)"
proof (intro conjI impI)
  assume h: "\<forall>a\<in>set (accounts s). a_id a \<noteq> i"
  show "updateAccount i ua s = s"
    using map_unless_match [of "accounts s" "\<lambda>a. a_id a = i"] h by (simp add: updateAccount_def)
  show "deleteAccount i s = s"
    using filter_no_match [of "accounts s" a_id i] h by (simp add: deleteAccount_def)
next
  assume h: "\<forall>t\<in>set (transactions s). t_id t \<noteq> i"
  show "updateTransaction i ut s = s"
    using map_unless_match [of "transactions s" "\<lambda>t. t_id t = i"] h
    by (simp add: updateTransaction_def)
  show "deleteTransaction i s = s"
    using filter_no_match [of "transactions s" t_id i] h by (simp add: deleteTransaction_def)
next
  assume h: "\<forall>b\<in>set (budgets s). b_id b \<noteq> i"
  show "updateBudget i ub s = s"
    using map_unless_match [of "budgets s" "\<lambda>b. b_id b = i"] h by (simp add: updateBudget_def)
  show "deleteBudget i s = s"
    using filter_no_match [of "budgets s" b_id i] h by (simp add: deleteBudget_def)
qed

theorem unknown_id_is_noop_witness:
  "''99'' \<notin> a_id ` set (accounts (initialState utcZone))
   \<and> ''99'' \<notin> t_id ` set (transactions (initialState utcZone))
   \<and> ''99'' \<notin> b_id ` set (budgets (initialState utcZone))
   \<and> updateAccount ''99'' (idOnly_account ''7'') (initialState utcZone) = initialState utcZone
   \<and> deleteAccount ''99'' (initialState utcZone) = initialState utcZone
   \<and> updateTransaction ''99'' moveAndReprice (initialState utcZone) = initialState utcZone
   \<and> deleteTransaction ''99'' (initialState utcZone) = initialState utcZone
   \<and> updateBudget ''99'' (idOnly_budget ''7'') (initialState utcZone) = initialState utcZone
   \<and> deleteBudget ''99'' (initialState utcZone) = initialState utcZone"
proof -
  have h: "(\<forall>a\<in>set (accounts (initialState utcZone)). a_id a \<noteq> ''99'')
      \<and> (\<forall>t\<in>set (transactions (initialState utcZone)). t_id t \<noteq> ''99'')
      \<and> (\<forall>b\<in>set (budgets (initialState utcZone)). b_id b \<noteq> ''99'')"
    by (simp add: initialState_def)
  show ?thesis
    using h unknown_id_is_noop [of "initialState utcZone" "''99''" "idOnly_account ''7''"
        moveAndReprice "idOnly_budget ''7''"]
    by auto
qed

text \<open>
  Claim C7. \<^verbatim>\<open>getTotalBalance\<close> is the sum of the balances of all accounts, and 0 when there
  is no account; after any sequence of \<^verbatim>\<open>addAccount\<close> calls from a state without accounts it
  is the sum of the balances of the accounts added.
\<close>

theorem getTotalBalance_sums_balances:
  "getTotalBalance s = sum_list (map a_balance (accounts s))
   \<and> (accounts s = [] \<longrightarrow> getTotalBalance s = 0)
   \<and> (accounts s = [] \<longrightarrow>
        getTotalBalance (addAccount_calls calls s) =
          sum_list (map (\<lambda>(newId, account). ai_balance account) calls))"
proof -
  have "a_balance \<circ> (\<lambda>(newId, account). with_id_account account newId) =
      (\<lambda>(newId, account). ai_balance account)"
    by (auto simp: fun_eq_iff with_id_account_def)
  then show ?thesis
    by (simp add: getTotalBalance_sum accounts_addAccount_calls)
qed

theorem getTotalBalance_sums_balances_witness:
  "accounts emptyState = []
   \<and> getTotalBalance emptyState = 0
   \<and> getTotalBalance
        (addAccount_calls [(''a'', exampleAccount ''A'' 100), (''b'', exampleAccount ''B'' (- 30.5))]
           emptyState) = 69.5"
proof -
  have h: "accounts emptyState = []" by (simp add: emptyState_def)
  show ?thesis
    using h getTotalBalance_sums_balances
      [of emptyState "[(''a'', exampleAccount ''A'' 100), (''b'', exampleAccount ''B'' (- 30.5))]"]
    by (simp add: exampleAccount_def)
qed

text \<open>
  Claim C8. \<^verbatim>\<open>getAccountBalance(accountId)\<close> is the balance of the first account with that id
  when there is one, and 0 when no account has that id. The query is a total function.
\<close>

theorem getAccountBalance_first_match_or_zero:
  "(\<forall>a. find (\<lambda>acc. a_id acc = i) (accounts s) = Some a \<longrightarrow> getAccountBalance s i = a_balance a)
   \<and> ((\<exists>a\<in>set (accounts s). a_id a = i) \<longrightarrow>
        (\<exists>a\<in>set (accounts s). a_id a = i \<and> getAccountBalance s i = a_balance a))
   \<and> ((\<forall>a\<in>set (accounts s). a_id a \<noteq> i) \<longrightarrow> getAccountBalance s i = 0)"
proof (intro conjI impI allI)
  fix a assume "find (\<lambda>acc. a_id acc = i) (accounts s) = Some a"
  then show "getAccountBalance s i = a_balance a" by (simp add: getAccountBalance_find)
next
  assume "\<exists>a\<in>set (accounts s). a_id a = i"
  then obtain a where a: "find (\<lambda>acc. a_id acc = i) (accounts s) = Some a"
    using find_Some_iff_ex [of "\<lambda>acc. a_id acc = i" "accounts s"] by blast
  then have "a \<in> set (accounts s)" "a_id a = i"
    by (auto simp: find_Some_iff in_set_conv_nth)
  then show "\<exists>a\<in>set (accounts s). a_id a = i \<and> getAccountBalance s i = a_balance a"
    using a by (auto simp: getAccountBalance_find)
next
  assume "\<forall>a\<in>set (accounts s). a_id a \<noteq> i"
  then have "find (\<lambda>acc. a_id acc = i) (accounts s) = None"
    by (simp add: find_None_iff)
  then show "getAccountBalance s i = 0" by (simp add: getAccountBalance_find)
qed

theorem getAccountBalance_first_match_or_zero_witness:
  "(\<exists>a\<in>set (accounts (initialState utcZone)). a_id a = ''2'')
   \<and> getAccountBalance (initialState utcZone) ''2'' = 15000
   \<and> ''99'' \<notin> a_id ` set (accounts (initialState utcZone))
   \<and> getAccountBalance (initialState utcZone) ''99'' = 0"
proof -
  have f: "find (\<lambda>acc. a_id acc = ''2'') (accounts (initialState utcZone)) =
      Some \<lparr>a_id = ''2'', a_name = ''Emergency Savings'', a_type = Savings,
            a_balance = 15000, a_currency = ''USD''\<rparr>"
    by (simp add: initialState_def)
  have n: "\<forall>a\<in>set (accounts (initialState utcZone)). a_id a \<noteq> ''99''"
    by (simp add: initialState_def)
  have e: "\<exists>a\<in>set (accounts (initialState utcZone)). a_id a = ''2''"
    by (simp add: initialState_def)
  show ?thesis
    using f n e getAccountBalance_first_match_or_zero [of "''2''" "initialState utcZone"]
      getAccountBalance_first_match_or_zero [of "''99''" "initialState utcZone"]
    by auto
qed

text \<open>
  Claim C9. When the fields given to \<^verbatim>\<open>updateAccount\<close>, \<^verbatim>\<open>updateTransaction\<close> or
  \<^verbatim>\<open>updateBudget\<close> contain an id, every record that matched the id argument is replaced by
  its merge with the fields and then carries the id supplied. In each collection an update
  can turn distinct ids into ids that two records share.
\<close>

theorem update_overwrites_id:
  "(\<forall>k<length (accounts s). a_id (accounts s ! k) = i \<and> ua_id ua = Some j \<longrightarrow>
       accounts (updateAccount i ua s) ! k = spread_account (accounts s ! k) ua
       \<and> a_id (accounts (updateAccount i ua s) ! k) = j)
   \<and> (\<forall>k<length (transactions s). t_id (transactions s ! k) = i \<and> ut_id ut = Some j \<longrightarrow>
       transactions (updateTransaction i ut s) ! k = spread_transaction (transactions s ! k) ut
       \<and> t_id (transactions (updateTransaction i ut s) ! k) = j)
   \<and> (\<forall>k<length (budgets s). b_id (budgets s ! k) = i \<and> ub_id ub = Some j \<longrightarrow>
       budgets (updateBudget i ub s) ! k = spread_budget (budgets s ! k) ub
       \<and> b_id (budgets (updateBudget i ub s) ! k) = j)
   \<and> (\<exists>s0 i0 u0. distinct (map a_id (accounts s0))
         \<and> \<not> distinct (map a_id (accounts (updateAccount i0 u0 s0))))
   \<and> (\<exists>s0 i0 u0. distinct (map t_id (transactions s0))
         \<and> \<not> distinct (map t_id (transactions (updateTransaction i0 u0 s0))))
   \<and> (\<exists>s0 i0 u0. distinct (map b_id (budgets s0))
         \<and> \<not> distinct (map b_id (budgets (updateBudget i0 u0 s0))))"
proof (intro conjI)
  show "\<forall>k<length (accounts s). a_id (accounts s ! k) = i \<and> ua_id ua = Some j \<longrightarrow>
       accounts (updateAccount i ua s) ! k = spread_account (accounts s ! k) ua
       \<and> a_id (accounts (updateAccount i ua s) ! k) = j"
    by (simp add: updateAccount_def spread_account_def override_def)
  show "\<forall>k<length (transactions s). t_id (transactions s ! k) = i \<and> ut_id ut = Some j \<longrightarrow>
       transactions (updateTransaction i ut s) ! k = spread_transaction (transactions s ! k) ut
       \<and> t_id (transactions (updateTransaction i ut s) ! k) = j"
    by (simp add: updateTransaction_def spread_transaction_def override_def)
  show "\<forall>k<length (budgets s). b_id (budgets s ! k) = i \<and> ub_id ub = Some j \<longrightarrow>
       budgets (updateBudget i ub s) ! k = spread_budget (budgets s ! k) ub
       \<and> b_id (budgets (updateBudget i ub s) ! k) = j"
    by (simp add: updateBudget_def spread_budget_def override_def)
  have "distinct (map a_id (accounts (initialState utcZone)))
      \<and> \<not> distinct (map a_id (accounts (updateAccount ''2'' (idOnly_account ''1'') (initialState utcZone))))"
    unfolding seed_account_ids renamed_account_ids by simp
  then show "\<exists>s0 i0 u0. distinct (map a_id (accounts s0))
         \<and> \<not> distinct (map a_id (accounts (updateAccount i0 u0 s0)))"
    by blast
  have "distinct (map t_id (transactions (initialState utcZone)))
      \<and> \<not> distinct (map t_id (transactions
            (updateTransaction ''2'' (idOnly_transaction ''1'') (initialState utcZone))))"
    unfolding seed_transaction_ids renamed_transaction_ids by simp
  then show "\<exists>s0 i0 u0. distinct (map t_id (transactions s0))
         \<and> \<not> distinct (map t_id (transactions (updateTransaction i0 u0 s0)))"
    by blast
  have "distinct (map b_id (budgets (initialState utcZone)))
      \<and> \<not> distinct (map b_id (budgets (updateBudget ''2'' (idOnly_budget ''1'') (initialState utcZone))))"
    unfolding seed_budget_ids renamed_budget_ids by simp
  then show "\<exists>s0 i0 u0. distinct (map b_id (budgets s0))
         \<and> \<not> distinct (map b_id (budgets (updateBudget i0 u0 s0)))"
    by blast
qed

theorem update_overwrites_id_witness:
  "a_id (accounts (initialState utcZone) ! 1) = ''2''
   \<and> a_id (accounts (updateAccount ''2'' (idOnly_account ''1'') (initialState utcZone)) ! 1) = ''1''
   \<and> t_id (transactions (initialState utcZone) ! 1) = ''2''
   \<and> t_id (transactions (updateTransaction ''2'' (idOnly_transaction ''1'') (initialState utcZone)) ! 1) = ''1''
   \<and> b_id (budgets (initialState utcZone) ! 1) = ''2''
   \<and> b_id (budgets (updateBudget ''2'' (idOnly_budget ''1'') (initialState utcZone)) ! 1) = ''1''"
proof -
  have h: "1 < length (accounts (initialState utcZone)) \<and> a_id (accounts (initialState utcZone) ! 1) = ''2''
      \<and> ua_id (idOnly_account ''1'') = Some ''1''
      \<and> 1 < length (transactions (initialState utcZone)) \<and> t_id (transactions (initialState utcZone) ! 1) = ''2''
      \<and> ut_id (idOnly_transaction ''1'') = Some ''1''
      \<and> 1 < length (budgets (initialState utcZone)) \<and> b_id (budgets (initialState utcZone) ! 1) = ''2''
      \<and> ub_id (idOnly_budget ''1'') = Some ''1''"
    by (simp add: initialState_def idOnly_account_def idOnly_transaction_def idOnly_budget_def)
  show ?thesis
    using h update_overwrites_id [of "initialState utcZone" "''2''" "idOnly_account ''1''" "''1''"
        "idOnly_transaction ''1''" "idOnly_budget ''1''"]
    by blast
qed

text \<open>
  Claim C10. An expense of the category dated after now should be part of the sum for
  every period argument. Evaluated at two clock readings one millisecond apart, before and
  after midnight of 31 January 2024 on a UTC host: the week window starts on 24 February,
  and an expense of 10 February, which is after now, is left out.
\<close>

theorem double_clock_read_drops_future_expense:
  "map (\<lambda>t. (t_category t, t_type t, t_date t)) (transactions (oneExpense 1707523200000)) =
     [(''Food & Dining'', Expense, DateObj 1707523200000)]
   \<and> (1706745599999 :: int) < 1707523200000
   \<and> windowStart utcZone 1706745599999 1706745600000 ''week'' = 1708732800000
   \<and> getCategorySpending utcZone 1706745599999 1706745600000 (oneExpense 1707523200000)
        ''Food & Dining'' (Some ''week'') = 0"
proof -
  have a: "map (\<lambda>t. (t_category t, t_type t, t_date t)) (transactions (oneExpense 1707523200000)) =
      [(''Food & Dining'', Expense, DateObj 1707523200000)]"
    by (simp add: oneExpense_def)
  have b: "getCategorySpending utcZone 1706745599999 1706745600000 (oneExpense 1707523200000)
      ''Food & Dining'' (Some ''week'') = 0"
    by (simp add: getCategorySpending_oneExpense week_window_across_midnight)
  show ?thesis using a b week_window_across_midnight by simp
qed

end
